theory Spec2Isabelle
  imports Main
begin

section \<open>The list component of \<^verbatim>\<open>packages/list/src/mwc-list-base.ts\<close>\<close>

text \<open>
  \<^verbatim>\<open>ListBase\<close> is a web component: its fields refer to DOM nodes that other code
  holds too, so nodes are addresses (\<open>node\<close>) into a store (\<open>dom\<close>) and the component
  is a record of its fields, passed in and returned updated by every method.

  JavaScript's \<^verbatim>\<open>number\<close> is modelled by \<open>int\<close> wherever it indexes an array.  A
  value of type \<^verbatim>\<open>MDCListIndex = number | number[]\<close> is \<open>Num i\<close> for an integer,
  \<open>NonInt\<close> for a number that is not an integer (\<^verbatim>\<open>1.5\<close>, \<^verbatim>\<open>NaN\<close>) or \<open>Arr is\<close>
  for an array; \<^verbatim>\<open>Number.isInteger(index)\<close> is the test for \<open>Num\<close>.  \<^verbatim>\<open>null\<close> and
  \<^verbatim>\<open>undefined\<close> are \<open>None\<close>.  Reading a property of \<^verbatim>\<open>undefined\<close> or
  \<^verbatim>\<open>null\<close>, calling a method a value does not have and iterating a number throw a
  \<^verbatim>\<open>TypeError\<close>; \<open>FoundationError\<close> is an error thrown inside the foundation.  A method
  that can throw returns \<open>js_error + 'a\<close>.
\<close>

subsection \<open>DOM nodes, events and the foundation\<close>

type_synonym node = nat

datatype js_error = TypeError | FoundationError

datatype mdc_index = Num int | NonInt | Arr "int list"

text \<open>
  What the component reads and writes of a DOM node.  \<open>descendants\<close> lists the element's
  descendants in document order (the candidates of \<^verbatim>\<open>querySelectorAll\<close>) and
  \<open>rootActiveElement\<close> is \<^verbatim>\<open>getRootNode().activeElement\<close>.
\<close>

record dom_node =
  isNodeElement :: bool
  instanceofListItemBase :: bool
  attributes :: "string \<Rightarrow> string option"
  classList :: "string list"
  selected :: bool
  disabled :: bool
  descendants :: "node list"
  rootActiveElement :: "node option"

text \<open>
  An event: its composed path, its target, the \<^verbatim>\<open>hasCheckboxOrRadio\<close> field of its
  detail, and the three flags that \<^verbatim>\<open>preventDefault\<close>, \<^verbatim>\<open>stopPropagation\<close> and
  \<^verbatim>\<open>stopImmediatePropagation\<close> set.
\<close>

record event =
  composedPath :: "node list"
  target :: node
  hasCheckboxOrRadio :: bool
  defaultPrevented :: bool
  propagationStopped :: bool
  immediatePropagationStopped :: bool

record custom_event =
  evType :: string
  bubbles :: bool
  composed :: bool
  detail :: mdc_index

text \<open>
  \<^verbatim>\<open>MDCListFoundation\<close> comes from the third-party package \<^verbatim>\<open>@material/list\<close>.
  The record \<open>foundation\<close> is what the component can tell of it: its three settings,
  written by their setters, the index that \<^verbatim>\<open>getSelectedIndex\<close> returns, and the log
  of every call the component made to it, in order.  What the foundation does inside
  \<^verbatim>\<open>setSelectedIndex\<close>, \<^verbatim>\<open>layout\<close> and its handlers is given separately, as a
  \<open>foundation_behaviour\<close> (below).
\<close>

datatype foundation_call =
    SetSingleSelection bool
  | SetUseActivatedClass bool
  | SetWrapFocus bool
  | SetSelectedIndex mdc_index
  | HandleFocusIn event int
  | HandleFocusOut event int
  | HandleKeydown event bool int
  | HandleClick int bool
  | Layout

record foundation =
  fnd_isSingleSelectionList :: bool
  fnd_useActivatedClass :: bool
  fnd_wrapFocus :: bool
  fnd_selectedIndex :: mdc_index
  fnd_calls :: "foundation_call list"

definition received :: "foundation_call \<Rightarrow> foundation \<Rightarrow> foundation" where
  "received c f = f\<lparr>fnd_calls := fnd_calls f @ [c]\<rparr>"

definition setSingleSelection :: "bool \<Rightarrow> foundation \<Rightarrow> foundation" where
  "setSingleSelection v f = received (SetSingleSelection v) (f\<lparr>fnd_isSingleSelectionList := v\<rparr>)"

definition setUseActivatedClass :: "bool \<Rightarrow> foundation \<Rightarrow> foundation" where
  "setUseActivatedClass v f = received (SetUseActivatedClass v) (f\<lparr>fnd_useActivatedClass := v\<rparr>)"

definition setWrapFocus :: "bool \<Rightarrow> foundation \<Rightarrow> foundation" where
  "setWrapFocus v f = received (SetWrapFocus v) (f\<lparr>fnd_wrapFocus := v\<rparr>)"

definition getSelectedIndex :: "foundation \<Rightarrow> mdc_index" where
  "getSelectedIndex f = fnd_selectedIndex f"

subsection \<open>The component\<close>

text \<open>
  The fields of \<^verbatim>\<open>ListBase\<close>.  \<open>mdcFoundation\<close> and \<open>mdcRoot\<close> are \<open>None\<close> until
  the element has rendered; \<open>slotElement\<close> is the slot's flattened assigned nodes, \<open>None\<close>
  when the query finds no slot.  \<open>activeElementPath\<close> is what the helper
  \<^verbatim>\<open>deepActiveElementPath()\<close> of \<^verbatim>\<open>@material/mwc-base/utils\<close> returns,
  \<open>dispatched\<close> the events passed to \<^verbatim>\<open>this.dispatchEvent\<close> and \<open>focusCalls\<close> the
  nodes whose \<^verbatim>\<open>focus()\<close> was called, both in order.
\<close>

record list_base =
  mdcFoundation :: "foundation option"
  mdcRoot :: "node option"
  slotElement :: "node list option"
  selectable :: bool
  activatable :: bool
  wrapFocus :: bool
  itemRoles :: "string option"
  items_field :: "node list"
  dom :: "node \<Rightarrow> dom_node"
  activeElementPath :: "node list"
  dispatched :: "custom_event list"
  focusCalls :: "node list"

definition items :: "list_base \<Rightarrow> node list" where
  "items s = items_field s"

text \<open>\<^verbatim>\<open>xs[i]\<close>: \<^verbatim>\<open>undefined\<close> outside the array.\<close>

definition at_index :: "node list \<Rightarrow> int \<Rightarrow> node option" where
  "at_index xs i = (if 0 \<le> i \<and> i < int (length xs) then Some (xs ! nat i) else None)"

text \<open>\<^verbatim>\<open>xs.indexOf(x)\<close>: the first position of \<open>x\<close>, or \<open>-1\<close>.\<close>

fun indexOf_from :: "int \<Rightarrow> node list \<Rightarrow> node \<Rightarrow> int" where
  "indexOf_from k [] x = -1"
| "indexOf_from k (y # ys) x = (if y = x then k else indexOf_from (k + 1) ys x)"

definition indexOf :: "node list \<Rightarrow> node \<Rightarrow> int" where
  "indexOf xs x = indexOf_from 0 xs x"

subsection \<open>getIndexOfTarget\<close>

text \<open>The \<^verbatim>\<open>for (const pathItem of path)\<close> loop of \<^verbatim>\<open>getIndexOfTarget\<close>.\<close>

fun getIndexOfTarget_loop :: "(node \<Rightarrow> dom_node) \<Rightarrow> node list \<Rightarrow> node list \<Rightarrow> int" where
  "getIndexOfTarget_loop d elements [] = -1"
| "getIndexOfTarget_loop d elements (pathItem # rest) =
     (let index = (if instanceofListItemBase (d pathItem) then indexOf elements pathItem else -1)
      in if index \<noteq> -1 then index else getIndexOfTarget_loop d elements rest)"

definition getIndexOfTarget :: "list_base \<Rightarrow> event \<Rightarrow> int" where
  "getIndexOfTarget s evt =
     (let elements = items s; path = composedPath evt
      in getIndexOfTarget_loop (dom s) elements path)"

subsection \<open>DOM operations\<close>

definition hasAttribute :: "(node \<Rightarrow> dom_node) \<Rightarrow> node \<Rightarrow> string \<Rightarrow> bool" where
  "hasAttribute d n a = (attributes (d n) a \<noteq> None)"

definition getAttribute :: "(node \<Rightarrow> dom_node) \<Rightarrow> node \<Rightarrow> string \<Rightarrow> string option" where
  "getAttribute d n a = attributes (d n) a"

definition setAttribute :: "(node \<Rightarrow> dom_node) \<Rightarrow> node \<Rightarrow> string \<Rightarrow> string \<Rightarrow> node \<Rightarrow> dom_node" where
  "setAttribute d n a v = d(n := (d n)\<lparr>attributes := (attributes (d n))(a := Some v)\<rparr>)"

definition removeAttribute :: "(node \<Rightarrow> dom_node) \<Rightarrow> node \<Rightarrow> string \<Rightarrow> node \<Rightarrow> dom_node" where
  "removeAttribute d n a = d(n := (d n)\<lparr>attributes := (attributes (d n))(a := None)\<rparr>)"

definition classList_add :: "(node \<Rightarrow> dom_node) \<Rightarrow> node \<Rightarrow> string \<Rightarrow> node \<Rightarrow> dom_node" where
  "classList_add d n c =
     d(n := (d n)\<lparr>classList :=
       (if c \<in> set (classList (d n)) then classList (d n) else classList (d n) @ [c])\<rparr>)"

definition classList_remove :: "(node \<Rightarrow> dom_node) \<Rightarrow> node \<Rightarrow> string \<Rightarrow> node \<Rightarrow> dom_node" where
  "classList_remove d n c = d(n := (d n)\<lparr>classList := removeAll c (classList (d n))\<rparr>)"

definition classList_contains :: "(node \<Rightarrow> dom_node) \<Rightarrow> node \<Rightarrow> string \<Rightarrow> bool" where
  "classList_contains d n c = (c \<in> set (classList (d n)))"

definition set_selected :: "(node \<Rightarrow> dom_node) \<Rightarrow> node \<Rightarrow> bool \<Rightarrow> node \<Rightarrow> dom_node" where
  "set_selected d n b = d(n := (d n)\<lparr>selected := b\<rparr>)"

text \<open>\<^verbatim>\<open>element.querySelectorAll('[a]')\<close>: the descendants that have attribute \<open>a\<close>.\<close>

definition querySelectorAll :: "(node \<Rightarrow> dom_node) \<Rightarrow> node \<Rightarrow> string \<Rightarrow> node list" where
  "querySelectorAll d n a = filter (\<lambda>m. hasAttribute d m a) (descendants (d n))"

text \<open>A \<^verbatim>\<open>string|null\<close> in a condition: \<^verbatim>\<open>null\<close> and the empty string are falsy.\<close>

definition truthy :: "string option \<Rightarrow> bool" where
  "truthy v = (case v of None \<Rightarrow> False | Some str \<Rightarrow> str \<noteq> [])"

subsection \<open>Calls into the foundation\<close>

text \<open>
  The foundation holds the adapter and nothing else of the component.  Through the
  adapter it can change attributes, classes and the \<^verbatim>\<open>selected\<close> property of nodes
  (the store), focus a node and dispatch the \<^verbatim>\<open>action\<close> event; it can change the
  index it reports; it can call methods of an event it is handed; and it can throw, also
  because an adapter callback throws.  A \<open>foundation_outcome\<close> is what a call that
  returns leaves behind, \<open>event_effect\<close> being what it did to the event it was handed.
  A \<open>foundation_behaviour\<close> gives, for a call and the component at that moment (which
  holds the foundation's settings and the log of earlier calls), the error thrown or the
  outcome.  Every method that calls \<^verbatim>\<open>setSelectedIndex\<close>, \<^verbatim>\<open>layout\<close> or a handler
  of the foundation takes the behaviour as its first argument.
\<close>

record foundation_outcome =
  out_selectedIndex :: mdc_index
  out_dom :: "node \<Rightarrow> dom_node"
  out_dispatched :: "custom_event list"
  out_focusCalls :: "node list"
  event_effect :: "event \<Rightarrow> event"

type_synonym foundation_behaviour = "foundation_call \<Rightarrow> list_base \<Rightarrow> js_error + foundation_outcome"

text \<open>
  The component with foundation \<open>f\<close> makes call \<open>c\<close>: the call is logged, and either it
  throws or its outcome is written back.
\<close>

definition call_foundation ::
  "foundation_behaviour \<Rightarrow> foundation_call \<Rightarrow> list_base \<Rightarrow> foundation \<Rightarrow>
     js_error + list_base \<times> (event \<Rightarrow> event)" where
  "call_foundation B c s f =
     (case B c s of
        Inl e \<Rightarrow> Inl e
      | Inr out \<Rightarrow>
          Inr (s\<lparr>mdcFoundation :=
                   Some ((received c f)\<lparr>fnd_selectedIndex := out_selectedIndex out\<rparr>),
                 dom := out_dom out,
                 dispatched := out_dispatched out,
                 focusCalls := out_focusCalls out\<rparr>,
               event_effect out))"

subsection \<open>The observers of selectable, activatable and wrapFocus\<close>

text \<open>
  Each observer is the function given to \<^verbatim>\<open>@observer\<close>; it is called with the new
  value when the property is set (\<open>set_selectable\<close>, \<open>set_activatable\<close>,
  \<open>set_wrapFocus\<close>).
\<close>

definition selectable_observer :: "list_base \<Rightarrow> bool \<Rightarrow> list_base" where
  "selectable_observer s v =
     (case mdcFoundation s of
        Some f \<Rightarrow> s\<lparr>mdcFoundation := Some (setSingleSelection (\<not> v) f)\<rparr>
      | None \<Rightarrow> s)"

definition activatable_observer :: "list_base \<Rightarrow> bool \<Rightarrow> list_base" where
  "activatable_observer s v =
     (case mdcFoundation s of
        Some f \<Rightarrow> s\<lparr>mdcFoundation := Some (setUseActivatedClass v f)\<rparr>
      | None \<Rightarrow> s)"

definition wrapFocus_observer :: "list_base \<Rightarrow> bool \<Rightarrow> list_base" where
  "wrapFocus_observer s v =
     (case mdcFoundation s of
        Some f \<Rightarrow> s\<lparr>mdcFoundation := Some (setWrapFocus (\<not> v) f)\<rparr>
      | None \<Rightarrow> s)"

definition set_selectable :: "list_base \<Rightarrow> bool \<Rightarrow> list_base" where
  "set_selectable s v = selectable_observer (s\<lparr>selectable := v\<rparr>) v"

definition set_activatable :: "list_base \<Rightarrow> bool \<Rightarrow> list_base" where
  "set_activatable s v = activatable_observer (s\<lparr>activatable := v\<rparr>) v"

definition set_wrapFocus :: "list_base \<Rightarrow> bool \<Rightarrow> list_base" where
  "set_wrapFocus s v = wrapFocus_observer (s\<lparr>wrapFocus := v\<rparr>) v"

subsection \<open>select, selectUi, deselectUi\<close>

definition selectUi :: "list_base \<Rightarrow> int \<Rightarrow> list_base" where
  "selectUi s index =
     (case at_index (items s) index of
        Some item \<Rightarrow> s\<lparr>dom := set_selected (dom s) item True\<rparr>
      | None \<Rightarrow> s)"

definition deselectUi :: "list_base \<Rightarrow> int \<Rightarrow> list_base" where
  "deselectUi s index =
     (case at_index (items s) index of
        Some item \<Rightarrow> s\<lparr>dom := set_selected (dom s) item False\<rparr>
      | None \<Rightarrow> s)"

text \<open>
  \<^verbatim>\<open>select\<close>: the call of \<^verbatim>\<open>setSelectedIndex\<close>, then \<^verbatim>\<open>selectUi\<close> for an integer
  or the \<^verbatim>\<open>for ... of\<close> over the index otherwise (a number is not iterable), then the
  dispatch.  An error thrown on the way ends the method.
\<close>

definition select :: "foundation_behaviour \<Rightarrow> list_base \<Rightarrow> mdc_index \<Rightarrow> js_error + list_base" where
  "select B s index =
     (case mdcFoundation s of
        None \<Rightarrow> Inr s
      | Some f \<Rightarrow>
          (case call_foundation B (SetSelectedIndex index) s f of
             Inl e \<Rightarrow> Inl e
           | Inr (s1, on_event) \<Rightarrow>
               (case (case index of
                        Num i \<Rightarrow> Inr (selectUi s1 i)
                      | NonInt \<Rightarrow> Inl TypeError
                      | Arr ixs \<Rightarrow> Inr (foldl selectUi s1 ixs)) of
                  Inl e \<Rightarrow> Inl e
                | Inr s2 \<Rightarrow>
                    (let selectedEv = \<lparr>evType = ''selected'', bubbles = True, composed = True,
                                       detail = index\<rparr>
                     in Inr (s2\<lparr>dispatched := dispatched s2 @ [selectedEv]\<rparr>)))))"

subsection \<open>assignedElements and updateItems\<close>

definition assignedElements :: "list_base \<Rightarrow> node list" where
  "assignedElements s =
     (case slotElement s of
        Some assignedNodes \<Rightarrow> filter (\<lambda>n. isNodeElement (dom s n)) assignedNodes
      | None \<Rightarrow> [])"

text \<open>
  The function mapped over the assigned elements: the element itself when it carries
  \<^verbatim>\<open>mwc-list-item\<close>, its matching descendants otherwise.  \<^verbatim>\<open>concat\<close> appends a
  single element as it appends a one-element array.
\<close>

definition listItemResult :: "(node \<Rightarrow> dom_node) \<Rightarrow> node \<Rightarrow> node list" where
  "listItemResult d element =
     (if hasAttribute d element ''mwc-list-item'' then [element]
      else querySelectorAll d element ''mwc-list-item'')"

text \<open>
  The body of \<^verbatim>\<open>this.items_.forEach((item, index) => ...)\<close>, from position \<open>index\<close>
  on, with the store and \<^verbatim>\<open>selectedIndicies\<close> as they stand.
\<close>

fun updateItems_forEach ::
  "string option \<Rightarrow> node list \<Rightarrow> int \<Rightarrow> (node \<Rightarrow> dom_node) \<times> int list \<Rightarrow>
     (node \<Rightarrow> dom_node) \<times> int list" where
  "updateItems_forEach roles [] index (d, selectedIndicies) = (d, selectedIndicies)"
| "updateItems_forEach roles (item # rest) index (d, selectedIndicies) =
     (let d1 = (case roles of
                  Some r \<Rightarrow> (if truthy roles then setAttribute d item ''role'' r
                             else removeAttribute d item ''role'')
                | None \<Rightarrow> removeAttribute d item ''role'');
          selectedIndicies1 = (if selected (d1 item) then selectedIndicies @ [index]
                               else selectedIndicies)
      in updateItems_forEach roles rest (index + 1) (d1, selectedIndicies1))"

definition updateItems :: "foundation_behaviour \<Rightarrow> list_base \<Rightarrow> js_error + list_base" where
  "updateItems B s =
     (let nodes = assignedElements s;
          listItems = foldl (\<lambda>listItems listItemResult. listItems @ listItemResult) []
                        (map (listItemResult (dom s)) nodes);
          (d, selectedIndicies) = updateItems_forEach (itemRoles s) listItems 0 (dom s, []);
          s1 = s\<lparr>items_field := listItems, dom := d\<rparr>
      in if length selectedIndicies \<noteq> 0
         then select B s1 (if length selectedIndicies = 1 then Num (selectedIndicies ! 0)
                           else Arr selectedIndicies)
         else Inr s1)"

subsection \<open>The getters selected and index\<close>

definition get_index :: "list_base \<Rightarrow> mdc_index" where
  "get_index s =
     (case mdcFoundation s of
        Some f \<Rightarrow> getSelectedIndex f
      | None \<Rightarrow> Num (-1))"

text \<open>
  What the getter \<^verbatim>\<open>selected\<close> returns: \<^verbatim>\<open>null\<close>, one array element
  (\<^verbatim>\<open>undefined\<close> outside the array) or an array of them.  A number that is not an
  integer has no \<^verbatim>\<open>map\<close> method.
\<close>

datatype selected_value = Null | Item "node option" | ItemList "node option list"

definition get_selected :: "list_base \<Rightarrow> js_error + selected_value" where
  "get_selected s =
     (let index = get_index s
      in case index of
           Num i \<Rightarrow> Inr (if i = -1 then Null else Item (at_index (items s) i))
         | NonInt \<Rightarrow> Inl TypeError
         | Arr ixs \<Rightarrow> Inr (ItemList (map (\<lambda>i. at_index (items s) i) ixs)))"

subsection \<open>render and the event handlers\<close>

datatype handler =
  OnKeydown | OnFocusIn | OnFocusOut | OnRequestSelected | OnSlotChange | OnListItemConnected


definition render_slot_listeners :: "(string \<times> handler) list" where
  "render_slot_listeners =
     [(''slotchange'', OnSlotChange), (''list-item-rendered'', OnListItemConnected)]"




text \<open>
  \<^verbatim>\<open>element.disabled\<close> throws when \<^verbatim>\<open>this.items[index]\<close> is undefined.
  \<^verbatim>\<open>handleClick\<close> is given the index and the flag, not the event.
\<close>

definition onRequestSelected ::
  "foundation_behaviour \<Rightarrow> list_base \<Rightarrow> event \<Rightarrow> js_error + list_base \<times> event" where
  "onRequestSelected B s evt =
     (case mdcFoundation s of
        None \<Rightarrow> Inr (s, evt)
      | Some f \<Rightarrow>
          (let index = getIndexOfTarget s evt
           in if index = -1 then Inr (s, evt)
              else (case at_index (items s) index of
                      None \<Rightarrow> Inl TypeError
                    | Some element \<Rightarrow>
                        if disabled (dom s element) then Inr (s, evt)
                        else (let toggleCheckbox = hasCheckboxOrRadio evt
                              in case call_foundation B (HandleClick index toggleCheckbox) s f of
                                   Inl e \<Rightarrow> Inl e
                                 | Inr (s1, on_event) \<Rightarrow> Inr (s1, evt)))))"

subsection \<open>createAdapter\<close>

text \<open>
  The callbacks of the object that \<^verbatim>\<open>createAdapter\<close> returns, each as a function of
  the component.  A callback that dereferences a value that can be \<^verbatim>\<open>undefined\<close> or
  \<^verbatim>\<open>null\<close> returns a sum.
\<close>

definition getListItemCount :: "list_base \<Rightarrow> int" where
  "getListItemCount s =
     (case mdcRoot s of
        Some root \<Rightarrow> int (length (items s))
      | None \<Rightarrow> 0)"

text \<open>
  The loop \<^verbatim>\<open>for (let i = activeElementPath.length - 1; i >= 0; i--)\<close>, with
  \<open>n = i + 1\<close>.
\<close>

fun getFocusedElementIndex_loop :: "(node \<Rightarrow> dom_node) \<Rightarrow> node list \<Rightarrow> node list \<Rightarrow> nat \<Rightarrow> int" where
  "getFocusedElementIndex_loop d elements path 0 = -1"
| "getFocusedElementIndex_loop d elements path (Suc i) =
     (let activeItem = path ! i
      in if hasAttribute d activeItem ''mwc-list-item'' then indexOf elements activeItem
         else getFocusedElementIndex_loop d elements path i)"

definition getFocusedElementIndex :: "list_base \<Rightarrow> int" where
  "getFocusedElementIndex s =
     (case mdcRoot s of
        None \<Rightarrow> -1
      | Some root \<Rightarrow>
          if length (items s) = 0 then -1
          else (let path = activeElementPath s
                in if length path = 0 then -1
                   else getFocusedElementIndex_loop (dom s) (items s) path (length path)))"

definition getAttributeForElementIndex :: "list_base \<Rightarrow> int \<Rightarrow> string \<Rightarrow> string option" where
  "getAttributeForElementIndex s index attr =
     (case mdcRoot s of
        None \<Rightarrow> Some []
      | Some listElement \<Rightarrow>
          (case at_index (items s) index of
             Some element \<Rightarrow> getAttribute (dom s) element attr
           | None \<Rightarrow> Some []))"

definition setAttributeForElementIndex :: "list_base \<Rightarrow> int \<Rightarrow> string \<Rightarrow> string \<Rightarrow> list_base" where
  "setAttributeForElementIndex s index attr val =
     (case mdcRoot s of
        None \<Rightarrow> s
      | Some root \<Rightarrow>
          (case at_index (items s) index of
             Some element \<Rightarrow> s\<lparr>dom := setAttribute (dom s) element attr val\<rparr>
           | None \<Rightarrow> s))"

definition addClassForElementIndex :: "list_base \<Rightarrow> int \<Rightarrow> string \<Rightarrow> list_base" where
  "addClassForElementIndex s index className =
     (case mdcRoot s of
        None \<Rightarrow> s
      | Some root \<Rightarrow>
          (case at_index (items s) index of
             Some element \<Rightarrow>
               (let s1 = s\<lparr>dom := classList_add (dom s) element className\<rparr>
                in if className = ''mdc-list-item--selected'' \<or>
                      className = ''mdc-list-item--activated''
                   then selectUi s1 index else s1)
           | None \<Rightarrow> s))"

text \<open>
  \<^verbatim>\<open>if (!element) { this.remove; }\<close> reads a property and goes on: the next statement
  dereferences \<^verbatim>\<open>element\<close> whether it is defined or not.
\<close>

definition removeClassForElementIndex :: "list_base \<Rightarrow> int \<Rightarrow> string \<Rightarrow> js_error + list_base" where
  "removeClassForElementIndex s index className =
     (case at_index (items s) index of
        None \<Rightarrow> Inl TypeError
      | Some element \<Rightarrow>
          (let s1 = s\<lparr>dom := classList_remove (dom s) element className\<rparr>
           in Inr (if className = ''mdc-list-item--selected'' \<or>
                      className = ''mdc-list-item--activated''
                   then deselectUi s1 index else s1)))"

definition focusItemAtIndex :: "list_base \<Rightarrow> int \<Rightarrow> list_base" where
  "focusItemAtIndex s index =
     (case at_index (items s) index of
        Some element \<Rightarrow>
          (if isNodeElement (dom s element) then s\<lparr>focusCalls := focusCalls s @ [element]\<rparr>
           else s)
      | None \<Rightarrow> s)"

definition setTabIndexForListItemChildren :: "list_base \<Rightarrow> list_base" where
  "setTabIndexForListItemChildren s = s"

definition hasCheckboxAtIndex :: "list_base \<Rightarrow> int \<Rightarrow> bool" where
  "hasCheckboxAtIndex s index =
     (case at_index (items s) index of
        Some element \<Rightarrow> hasAttribute (dom s) element ''mwc-check-list-item''
      | None \<Rightarrow> False)"

definition hasRadioAtIndex :: "list_base \<Rightarrow> int \<Rightarrow> bool" where
  "hasRadioAtIndex s index =
     (case at_index (items s) index of
        Some element \<Rightarrow> hasAttribute (dom s) element ''mwc-radio-list-item''
      | None \<Rightarrow> False)"

text \<open>
  \<^verbatim>\<open>element.hasAttribute\<close> is evaluated before the test \<^verbatim>\<open>element ? ... : false\<close>.
\<close>

definition isCheckboxCheckedAtIndex :: "list_base \<Rightarrow> int \<Rightarrow> js_error + bool" where
  "isCheckboxCheckedAtIndex s index =
     (case at_index (items s) index of
        None \<Rightarrow> Inl TypeError
      | Some element \<Rightarrow>
          (let hasCheckbox = hasAttribute (dom s) element ''mwc-check-list-item''
           in Inr (hasCheckbox \<and> selected (dom s element))))"

definition setCheckedCheckboxOrRadioAtIndex :: "list_base \<Rightarrow> int \<Rightarrow> bool \<Rightarrow> list_base" where
  "setCheckedCheckboxOrRadioAtIndex s index isChecked =
     (case at_index (items s) index of
        Some element \<Rightarrow> s\<lparr>dom := set_selected (dom s) element isChecked\<rparr>
      | None \<Rightarrow> s)"


text \<open>\<^verbatim>\<open>mdcRoot.getRootNode()\<close> throws when \<^verbatim>\<open>this.mdcRoot\<close> is null.\<close>

definition isRootFocused :: "list_base \<Rightarrow> js_error + bool" where
  "isRootFocused s =
     (case mdcRoot s of
        None \<Rightarrow> Inl TypeError
      | Some root \<Rightarrow> Inr (rootActiveElement (dom s root) = Some root))"

definition listItemAtIndexHasClass :: "list_base \<Rightarrow> int \<Rightarrow> string \<Rightarrow> bool" where
  "listItemAtIndexHasClass s index className =
     (case at_index (items s) index of
        None \<Rightarrow> False
      | Some item \<Rightarrow> classList_contains (dom s) item className)"

subsection \<open>layout and the slot handlers\<close>

text \<open>\<^verbatim>\<open>this.mdcFoundation.layout()\<close> throws when there is no foundation.\<close>

definition layout :: "foundation_behaviour \<Rightarrow> list_base \<Rightarrow> js_error + list_base" where
  "layout B s =
     (case mdcFoundation s of
        None \<Rightarrow> Inl TypeError
      | Some f \<Rightarrow>
          (case call_foundation B Layout s f of
             Inl e \<Rightarrow> Inl e
           | Inr (s1, on_event) \<Rightarrow>
               (case at_index (items s1) 0 of
                  Some first \<Rightarrow> Inr (s1\<lparr>dom := setAttribute (dom s1) first ''tabIndex'' ''0''\<rparr>)
                | None \<Rightarrow> Inr s1)))"

definition onSlotChange :: "foundation_behaviour \<Rightarrow> list_base \<Rightarrow> js_error + list_base" where
  "onSlotChange B s =
     (case updateItems B s of
        Inl e \<Rightarrow> Inl e
      | Inr s1 \<Rightarrow> layout B s1)"

definition onListItemConnected ::
  "foundation_behaviour \<Rightarrow> list_base \<Rightarrow> event \<Rightarrow> js_error + list_base" where
  "onListItemConnected B s e =
     (case (if indexOf (items s) (target e) = -1 then updateItems B s else Inr s) of
        Inl err \<Rightarrow> Inl err
      | Inr s1 \<Rightarrow> layout B s1)"

subsection \<open>A concrete list\<close>

text \<open>
  A rendered list to evaluate the definitions on.  Node 0 is the window, 1 the
  \<^verbatim>\<open>ul.mdc-list\<close>, 2, 3 and 4 are list items (3 is selected, 4 is disabled), 5 is a
  \<^verbatim>\<open>span\<close> inside item 3 and 6 a \<^verbatim>\<open>div\<close> around item 4.
\<close>

definition plain_node :: dom_node where
  "plain_node =
     \<lparr>isNodeElement = True, instanceofListItemBase = False, attributes = (\<lambda>a. None),
      classList = [], selected = False, disabled = False, descendants = [],
      rootActiveElement = None\<rparr>"

definition list_item_node :: "bool \<Rightarrow> bool \<Rightarrow> dom_node" where
  "list_item_node sel dis =
     plain_node\<lparr>instanceofListItemBase := True,
                attributes := (\<lambda>a. if a = ''mwc-list-item'' then Some [] else None),
                selected := sel, disabled := dis\<rparr>"

definition example_dom :: "node \<Rightarrow> dom_node" where
  "example_dom =
     (\<lambda>n. if n = 0 then plain_node\<lparr>isNodeElement := False\<rparr>
          else if n = 2 then list_item_node False False
          else if n = 3 then list_item_node True False
          else if n = 4 then list_item_node False True
          else if n = 6 then plain_node\<lparr>descendants := [4]\<rparr>
          else plain_node)"

definition example_foundation :: foundation where
  "example_foundation =
     \<lparr>fnd_isSingleSelectionList = False, fnd_useActivatedClass = False, fnd_wrapFocus = False,
      fnd_selectedIndex = Num 1, fnd_calls = []\<rparr>"

definition example_list :: list_base where
  "example_list =
     \<lparr>mdcFoundation = Some example_foundation, mdcRoot = Some 1, slotElement = Some [2, 3, 6],
      selectable = False, activatable = False, wrapFocus = False, itemRoles = None,
      items_field = [2, 3, 4], dom = example_dom, activeElementPath = [],
      dispatched = [], focusCalls = []\<rparr>"

text \<open>The same component before it has rendered: no foundation, no root, no slot.\<close>

definition unrendered_list :: list_base where
  "unrendered_list =
     example_list\<lparr>mdcFoundation := None, mdcRoot := None, slotElement := None\<rparr>"

text \<open>An event on the span inside item 3, and one on the disabled item 4.\<close>

definition example_event :: event where
  "example_event =
     \<lparr>composedPath = [5, 3, 1, 0], target = 5, hasCheckboxOrRadio = True,
      defaultPrevented = False, propagationStopped = False,
      immediatePropagationStopped = False\<rparr>"

definition disabled_event :: event where
  "disabled_event = example_event\<lparr>composedPath := [4, 6, 1, 0], target := 4\<rparr>"

text \<open>
  Two behaviours a foundation may have.  \<open>quiet_foundation\<close> returns from every call
  and changes nothing.  \<open>strict_foundation\<close> does as \<^verbatim>\<open>MDCListFoundation\<close> does in two
  places: \<^verbatim>\<open>setSelectedIndex\<close> throws on an array of indices (the list has no
  checkboxes), and \<^verbatim>\<open>handleKeydown\<close> calls \<^verbatim>\<open>preventDefault\<close> on the event, as it
  does for a navigation key.
\<close>

definition unchanged :: "list_base \<Rightarrow> foundation_outcome" where
  "unchanged s =
     \<lparr>out_selectedIndex = get_index s, out_dom = dom s, out_dispatched = dispatched s,
      out_focusCalls = focusCalls s, event_effect = (\<lambda>e. e)\<rparr>"

definition quiet_foundation :: foundation_behaviour where
  "quiet_foundation c s = Inr (unchanged s)"


section \<open>Properties\<close>

subsection \<open>Array lookups\<close>

lemma indexOf_from_notin: "x \<notin> set xs \<Longrightarrow> indexOf_from k xs x = -1"
  by (induction xs arbitrary: k) auto

lemma indexOf_from_in:
  "x \<in> set xs \<Longrightarrow>
     k \<le> indexOf_from k xs x \<and> indexOf_from k xs x < k + int (length xs) \<and>
     xs ! nat (indexOf_from k xs x - k) = x \<and>
     (\<forall>j < nat (indexOf_from k xs x - k). xs ! j \<noteq> x)"
proof (induction xs arbitrary: k)
  case Nil
  then show ?case by simp
next
  case (Cons y ys)
  show ?case
  proof (cases "y = x")
    case True
    then show ?thesis by simp
  next
    case False
    with Cons.prems have mem: "x \<in> set ys" by simp
    note ih = Cons.IH [OF mem, of "k + 1"]
    let ?r = "indexOf_from (k + 1) ys x"
    have r: "indexOf_from k (y # ys) x = ?r" using False by simp
    have pos: "nat (?r - k) = Suc (nat (?r - (k + 1)))" using ih by linarith
    have first: "\<forall>j < nat (?r - k). (y # ys) ! j \<noteq> x"
    proof (intro allI impI)
      fix j assume j: "j < nat (?r - k)"
      show "(y # ys) ! j \<noteq> x"
      proof (cases j)
        case 0
        then show ?thesis using False by simp
      next
        case (Suc j')
        with j pos have "j' < nat (?r - (k + 1))" by simp
        with ih have "ys ! j' \<noteq> x" by blast
        with Suc show ?thesis by simp
      qed
    qed
    from ih have "k \<le> ?r" "?r < k + int (length (y # ys))" by auto
    moreover have "(y # ys) ! nat (?r - k) = x" using ih pos by simp
    ultimately show ?thesis using first r by simp
  qed
qed

lemma indexOf_notin: "x \<notin> set xs \<Longrightarrow> indexOf xs x = -1"
  by (simp add: indexOf_def indexOf_from_notin)

lemma indexOf_in:
  "x \<in> set xs \<Longrightarrow>
     0 \<le> indexOf xs x \<and> indexOf xs x < int (length xs) \<and> xs ! nat (indexOf xs x) = x \<and>
     (\<forall>j < nat (indexOf xs x). xs ! j \<noteq> x)"
  using indexOf_from_in [of x xs 0] by (simp add: indexOf_def)

lemma indexOf_minus_one_iff: "indexOf xs x = -1 \<longleftrightarrow> x \<notin> set xs"
  using indexOf_in [of x xs] indexOf_notin [of x xs] by auto

subsection \<open>getIndexOfTarget\<close>

lemma getIndexOfTarget_loop_find:
  "getIndexOfTarget_loop d elements path =
     (case find (\<lambda>p. instanceofListItemBase (d p) \<and> p \<in> set elements) path of
        None \<Rightarrow> -1
      | Some p \<Rightarrow> indexOf elements p)"
  by (induction path) (auto simp: Let_def indexOf_minus_one_iff)

lemma getIndexOfTarget_find:
  "getIndexOfTarget s evt =
     (case find (\<lambda>p. instanceofListItemBase (dom s p) \<and> p \<in> set (items s)) (composedPath evt) of
        None \<Rightarrow> -1
      | Some p \<Rightarrow> indexOf (items s) p)"
  by (simp add: getIndexOfTarget_def getIndexOfTarget_loop_find Let_def)

lemma find_Some_member: "find P xs = Some x \<Longrightarrow> P x \<and> x \<in> set xs"
  by (induction xs) (auto split: if_splits)

text \<open>
  Claim C1.  \<^verbatim>\<open>getIndexOfTarget\<close> scans the composed path from its start.  When no
  element of the path is a list item held in \<open>items\<close> the result is \<open>-1\<close>; otherwise, for
  the first such element \<open>p\<close>, the result is the position of \<open>p\<close> in \<open>items\<close> (the first
  one, should \<open>p\<close> occur more than once).
\<close>

theorem getIndexOfTarget_first_list_item:
  "case find (\<lambda>p. instanceofListItemBase (dom s p) \<and> p \<in> set (items s)) (composedPath evt) of
     None \<Rightarrow> getIndexOfTarget s evt = -1
   | Some p \<Rightarrow>
       0 \<le> getIndexOfTarget s evt \<and> getIndexOfTarget s evt < int (length (items s)) \<and>
       items s ! nat (getIndexOfTarget s evt) = p \<and>
       (\<forall>j < nat (getIndexOfTarget s evt). items s ! j \<noteq> p)"
proof (cases "find (\<lambda>p. instanceofListItemBase (dom s p) \<and> p \<in> set (items s)) (composedPath evt)")
  case None
  then show ?thesis by (simp add: getIndexOfTarget_find)
next
  case (Some p)
  then have "p \<in> set (items s)" using find_Some_member by fastforce
  from indexOf_in [OF this] Some show ?thesis by (simp add: getIndexOfTarget_find)
qed

theorem getIndexOfTarget_first_list_item_witness:
  "find (\<lambda>p. instanceofListItemBase (dom example_list p) \<and> p \<in> set (items example_list))
     (composedPath example_event) = Some 3 \<and>
   getIndexOfTarget example_list example_event = 1 \<and>
   items example_list ! 1 = 3"
  using getIndexOfTarget_first_list_item [of example_list example_event]
  by (simp add: example_list_def example_event_def example_dom_def plain_node_def
      list_item_node_def items_def getIndexOfTarget_def indexOf_def)

text \<open>
  Claim C9.  The result of \<^verbatim>\<open>getIndexOfTarget\<close> is \<open>-1\<close> or an index into \<open>items\<close>
  whose element lies on the event's composed path.
\<close>

theorem getIndexOfTarget_in_range:
  "getIndexOfTarget s evt = -1 \<or>
   (0 \<le> getIndexOfTarget s evt \<and> getIndexOfTarget s evt < int (length (items s)) \<and>
    items s ! nat (getIndexOfTarget s evt) \<in> set (composedPath evt))"
proof (cases "find (\<lambda>p. instanceofListItemBase (dom s p) \<and> p \<in> set (items s)) (composedPath evt)")
  case None
  then show ?thesis by (simp add: getIndexOfTarget_find)
next
  case (Some p)
  then have p: "p \<in> set (items s)" "p \<in> set (composedPath evt)"
    using find_Some_member by fastforce+
  from indexOf_in [OF p(1)] p(2) Some show ?thesis by (simp add: getIndexOfTarget_find)
qed

theorem getIndexOfTarget_in_range_witness:
  "getIndexOfTarget example_list example_event = 1 \<and>
   items example_list ! nat (getIndexOfTarget example_list example_event)
     \<in> set (composedPath example_event)"
  using getIndexOfTarget_in_range [of example_list example_event]
  by (simp add: example_list_def example_event_def example_dom_def plain_node_def
      list_item_node_def items_def getIndexOfTarget_def indexOf_def)

subsection \<open>Selection bookkeeping\<close>

lemma selectUi_frame:
  "mdcFoundation (selectUi s i) = mdcFoundation s"
  "dispatched (selectUi s i) = dispatched s"
  "items (selectUi s i) = items s"
  by (simp_all add: selectUi_def items_def split: option.splits)

lemma foldl_selectUi_frame:
  "mdcFoundation (foldl selectUi s ixs) = mdcFoundation s \<and>
   dispatched (foldl selectUi s ixs) = dispatched s \<and>
   items (foldl selectUi s ixs) = items s"
  by (induction ixs arbitrary: s) (simp_all add: selectUi_frame)

lemma call_foundation_throws: "B c s = Inl e \<Longrightarrow> call_foundation B c s f = Inl e"
  by (simp add: call_foundation_def)

lemma call_foundation_returns:
  "B c s = Inr out \<Longrightarrow>
     call_foundation B c s f =
       Inr (s\<lparr>mdcFoundation :=
                Some ((received c f)\<lparr>fnd_selectedIndex := out_selectedIndex out\<rparr>),
              dom := out_dom out, dispatched := out_dispatched out,
              focusCalls := out_focusCalls out\<rparr>,
            event_effect out)"
  by (simp add: call_foundation_def)


lemma select_throws:
  "mdcFoundation s = Some f \<Longrightarrow> B (SetSelectedIndex index) s = Inl e \<Longrightarrow>
     select B s index = Inl e"
  by (simp add: select_def call_foundation_throws)

lemma select_non_integer:
  "mdcFoundation s = Some f \<Longrightarrow> B (SetSelectedIndex NonInt) s = Inr out \<Longrightarrow>
     select B s NonInt = Inl TypeError"
  by (simp add: select_def call_foundation_returns)

lemma select_returns:
  assumes "mdcFoundation s = Some f" and "B (SetSelectedIndex index) s = Inr out"
    and "index \<noteq> NonInt"
  shows "\<exists>s'. select B s index = Inr s' \<and> items s' = items s \<and>
           mdcFoundation s' =
             Some ((received (SetSelectedIndex index) f)
                     \<lparr>fnd_selectedIndex := out_selectedIndex out\<rparr>) \<and>
           dispatched s' =
             out_dispatched out @
               [\<lparr>evType = ''selected'', bubbles = True, composed = True, detail = index\<rparr>]"
proof -
  define s1 where
    "s1 = s\<lparr>mdcFoundation :=
               Some ((received (SetSelectedIndex index) f)
                       \<lparr>fnd_selectedIndex := out_selectedIndex out\<rparr>),
             dom := out_dom out, dispatched := out_dispatched out,
             focusCalls := out_focusCalls out\<rparr>"
  have call: "call_foundation B (SetSelectedIndex index) s f = Inr (s1, event_effect out)"
    using assms(2) by (simp add: call_foundation_returns s1_def)
  have s1: "items s1 = items s" "dispatched s1 = out_dispatched out"
    "mdcFoundation s1 =
       Some ((received (SetSelectedIndex index) f)\<lparr>fnd_selectedIndex := out_selectedIndex out\<rparr>)"
    by (simp_all add: s1_def items_def)
  have upd: "\<And>t x. items (t\<lparr>dispatched := x\<rparr>) = items t"
    by (simp add: items_def)
  show ?thesis
    using assms(1,3) call s1
    by (cases index)
      (simp_all add: select_def Let_def upd selectUi_frame foldl_selectUi_frame)
qed

text \<open>
  Claim C6.  With a foundation \<open>f\<close> in place, the getter \<^verbatim>\<open>index\<close> returns what
  \<^verbatim>\<open>f.getSelectedIndex()\<close> returns.  The getter \<^verbatim>\<open>selected\<close> returns \<^verbatim>\<open>null\<close>
  exactly when that index is the integer \<open>-1\<close>, \<^verbatim>\<open>items[i]\<close> when it is another
  integer \<open>i\<close>, and the array of the \<^verbatim>\<open>items[i]\<close> when it is an array of indices (on
  a number that is not an integer it throws).  In the other direction \<^verbatim>\<open>select\<close>
  hands its argument to \<^verbatim>\<open>setSelectedIndex\<close> as it is: it throws what that call
  throws, and when the call returns the foundation's log ends with it.
\<close>

theorem selection_pass_through:
  "mdcFoundation s = Some f \<Longrightarrow>
     get_index s = getSelectedIndex f \<and>
     (get_selected s = Inr Null \<longleftrightarrow> getSelectedIndex f = Num (-1)) \<and>
     (case getSelectedIndex f of
        Num i \<Rightarrow>
          (if i = -1 then get_selected s = Inr Null
           else get_selected s = Inr (Item (if 0 \<le> i \<and> i < int (length (items s))
                                            then Some (items s ! nat i) else None)))
      | NonInt \<Rightarrow> get_selected s = Inl TypeError
      | Arr ixs \<Rightarrow> get_selected s = Inr (ItemList (map (at_index (items s)) ixs))) \<and>
     (case B (SetSelectedIndex index) s of
        Inl e \<Rightarrow> select B s index = Inl e
      | Inr out \<Rightarrow>
          (if index = NonInt then select B s index = Inl TypeError
           else (\<exists>s' f'. select B s index = Inr s' \<and> mdcFoundation s' = Some f' \<and>
                   fnd_calls f' = fnd_calls f @ [SetSelectedIndex index])))"
proof -
  assume fnd: "mdcFoundation s = Some f"
  then have idx: "get_index s = getSelectedIndex f"
    by (simp add: get_index_def)
  have null: "get_selected s = Inr Null \<longleftrightarrow> getSelectedIndex f = Num (-1)"
    using idx by (cases "getSelectedIndex f") (simp_all add: get_selected_def)
  have shape: "case getSelectedIndex f of
        Num i \<Rightarrow>
          (if i = -1 then get_selected s = Inr Null
           else get_selected s = Inr (Item (if 0 \<le> i \<and> i < int (length (items s))
                                            then Some (items s ! nat i) else None)))
      | NonInt \<Rightarrow> get_selected s = Inl TypeError
      | Arr ixs \<Rightarrow> get_selected s = Inr (ItemList (map (at_index (items s)) ixs))"
    using idx by (cases "getSelectedIndex f") (simp_all add: get_selected_def at_index_def)
  have sel: "case B (SetSelectedIndex index) s of
        Inl e \<Rightarrow> select B s index = Inl e
      | Inr out \<Rightarrow>
          (if index = NonInt then select B s index = Inl TypeError
           else (\<exists>s' f'. select B s index = Inr s' \<and> mdcFoundation s' = Some f' \<and>
                   fnd_calls f' = fnd_calls f @ [SetSelectedIndex index]))"
  proof (cases "B (SetSelectedIndex index) s")
    case (Inl e)
    then show ?thesis using select_throws [where B = B, OF fnd] by simp
  next
    case (Inr out)
    show ?thesis
    proof (cases "index = NonInt")
      case True
      then show ?thesis using Inr select_non_integer [where B = B, OF fnd] by simp
    next
      case False
      from select_returns [where B = B, OF fnd Inr False] obtain s' where
        "select B s index = Inr s'"
        "mdcFoundation s' =
           Some ((received (SetSelectedIndex index) f)\<lparr>fnd_selectedIndex := out_selectedIndex out\<rparr>)"
        by blast
      then have "\<exists>s' f'. select B s index = Inr s' \<and> mdcFoundation s' = Some f' \<and>
                   fnd_calls f' = fnd_calls f @ [SetSelectedIndex index]"
        by (simp add: received_def)
      then show ?thesis using Inr False by simp
    qed
  qed
  from idx null shape sel show ?thesis by blast
qed

theorem selection_pass_through_witness:
  "mdcFoundation example_list = Some example_foundation \<and>
   getSelectedIndex example_foundation = Num 1 \<and>
   get_index example_list = Num 1 \<and>
   get_selected example_list = Inr (Item (Some 3)) \<and>
   get_selected example_list \<noteq> Inr Null \<and>
   (\<exists>s' f'. select quiet_foundation example_list (Num 1) = Inr s' \<and>
      mdcFoundation s' = Some f' \<and> fnd_calls f' = [SetSelectedIndex (Num 1)])"
  using selection_pass_through [of example_list example_foundation quiet_foundation "Num 1"]
  by (simp add: example_list_def example_foundation_def getSelectedIndex_def items_def
      quiet_foundation_def)

subsection \<open>Custom events\<close>




subsection \<open>The event handlers\<close>

lemma getIndexOfTarget_at_index:
  "getIndexOfTarget s evt \<noteq> -1 \<Longrightarrow>
     at_index (items s) (getIndexOfTarget s evt) = Some (items s ! nat (getIndexOfTarget s evt))"
proof (cases "find (\<lambda>p. instanceofListItemBase (dom s p) \<and> p \<in> set (items s)) (composedPath evt)")
  case None
  moreover assume "getIndexOfTarget s evt \<noteq> -1"
  ultimately show ?thesis by (simp add: getIndexOfTarget_find)
next
  case (Some p)
  then have "p \<in> set (items s)" using find_Some_member by fastforce
  from indexOf_in [OF this] Some show ?thesis
    by (simp add: getIndexOfTarget_find at_index_def)
qed

lemma onRequestSelected_unfold:
  "onRequestSelected B s evt =
     (case mdcFoundation s of
        None \<Rightarrow> Inr (s, evt)
      | Some f \<Rightarrow>
          if getIndexOfTarget s evt = -1 then Inr (s, evt)
          else if disabled (dom s (items s ! nat (getIndexOfTarget s evt))) then Inr (s, evt)
          else (case call_foundation B
                       (HandleClick (getIndexOfTarget s evt) (hasCheckboxOrRadio evt)) s f of
                  Inl e \<Rightarrow> Inl e
                | Inr (s1, on_event) \<Rightarrow> Inr (s1, evt)))"
  by (auto simp: onRequestSelected_def Let_def getIndexOfTarget_at_index split: option.splits)








text \<open>
  Claim C10, as the code has it.  \<^verbatim>\<open>onRequestSelected\<close> returns without a call to the
  foundation and without a change of state when there is no foundation, when the composed
  path resolves to no list item (index \<open>-1\<close>), and when the resolved item is disabled.
  In every other case it calls \<^verbatim>\<open>handleClick\<close> on the foundation with the resolved index
  and the \<^verbatim>\<open>hasCheckboxOrRadio\<close> flag of the event's detail: it throws what that call
  throws, and otherwise returns the component as that call leaves it.
\<close>

theorem onRequestSelected_guarded:
  "(mdcFoundation s = None \<longrightarrow> onRequestSelected B s evt = Inr (s, evt)) \<and>
   (getIndexOfTarget s evt = -1 \<longrightarrow> onRequestSelected B s evt = Inr (s, evt)) \<and>
   (getIndexOfTarget s evt \<noteq> -1 \<and>
    disabled (dom s (items s ! nat (getIndexOfTarget s evt))) \<longrightarrow>
      onRequestSelected B s evt = Inr (s, evt)) \<and>
   (mdcFoundation s = Some f \<and> getIndexOfTarget s evt \<noteq> -1 \<and>
    \<not> disabled (dom s (items s ! nat (getIndexOfTarget s evt))) \<longrightarrow>
      onRequestSelected B s evt =
        (case B (HandleClick (getIndexOfTarget s evt) (hasCheckboxOrRadio evt)) s of
           Inl e \<Rightarrow> Inl e
         | Inr out \<Rightarrow>
             Inr (s\<lparr>mdcFoundation :=
                      Some ((received (HandleClick (getIndexOfTarget s evt)
                                         (hasCheckboxOrRadio evt)) f)
                              \<lparr>fnd_selectedIndex := out_selectedIndex out\<rparr>),
                    dom := out_dom out, dispatched := out_dispatched out,
                    focusCalls := out_focusCalls out\<rparr>,
                  evt)))"
  by (simp add: onRequestSelected_unfold call_foundation_def split: option.splits sum.splits)

theorem onRequestSelected_guarded_witness:
  "onRequestSelected quiet_foundation unrendered_list example_event =
     Inr (unrendered_list, example_event) \<and>
   getIndexOfTarget example_list disabled_event = 2 \<and>
   onRequestSelected quiet_foundation example_list disabled_event =
     Inr (example_list, disabled_event) \<and>
   getIndexOfTarget example_list example_event = 1 \<and>
   onRequestSelected quiet_foundation example_list example_event =
     Inr (example_list\<lparr>mdcFoundation :=
            Some (example_foundation\<lparr>fnd_calls := [HandleClick 1 True]\<rparr>)\<rparr>, example_event)"
proof -
  have none: "mdcFoundation unrendered_list = None"
    by (simp add: unrendered_list_def)
  have some: "mdcFoundation example_list = Some example_foundation"
    by (simp add: example_list_def)
  have i2: "getIndexOfTarget example_list disabled_event = 2"
    by (simp add: getIndexOfTarget_def indexOf_def items_def example_list_def disabled_event_def
        example_event_def example_dom_def plain_node_def list_item_node_def)
  have i1: "getIndexOfTarget example_list example_event = 1"
    by (simp add: getIndexOfTarget_def indexOf_def items_def example_list_def
        example_event_def example_dom_def plain_node_def list_item_node_def)
  have dis: "disabled (dom example_list (items example_list ! 2))"
    by (simp add: items_def example_list_def example_dom_def plain_node_def list_item_node_def)
  have en: "\<not> disabled (dom example_list (items example_list ! 1))"
    by (simp add: items_def example_list_def example_dom_def plain_node_def list_item_node_def)
  have flag: "hasCheckboxOrRadio example_event"
    by (simp add: example_event_def)
  have quiet: "quiet_foundation (HandleClick 1 True) example_list = Inr (unchanged example_list)"
    by (simp add: quiet_foundation_def)
  have wb: "example_list\<lparr>mdcFoundation :=
        Some ((received (HandleClick 1 True) example_foundation)
                \<lparr>fnd_selectedIndex := out_selectedIndex (unchanged example_list)\<rparr>),
        dom := out_dom (unchanged example_list),
        dispatched := out_dispatched (unchanged example_list),
        focusCalls := out_focusCalls (unchanged example_list)\<rparr> =
      example_list\<lparr>mdcFoundation :=
        Some (example_foundation\<lparr>fnd_calls := [HandleClick 1 True]\<rparr>)\<rparr>"
    by (simp add: unchanged_def get_index_def getSelectedIndex_def received_def
        example_list_def example_foundation_def)
  show ?thesis
    using onRequestSelected_guarded [of unrendered_list quiet_foundation example_event
        example_foundation]
      onRequestSelected_guarded [of example_list quiet_foundation disabled_event
        example_foundation]
      onRequestSelected_guarded [of example_list quiet_foundation example_event
        example_foundation]
      none some i1 i2 dis en flag quiet wb
    by simp
qed

text \<open>
  Against C10 as stated: the path of \<open>example_event\<close> resolves to item 1, which is not
  disabled, and with no foundation the handler calls nothing and returns the component
  as it was.
\<close>

theorem onRequestSelected_without_foundation:
  "getIndexOfTarget unrendered_list example_event = 1 \<and>
   disabled (dom unrendered_list (items unrendered_list ! 1)) = False \<and>
   mdcFoundation unrendered_list = None \<and>
   onRequestSelected quiet_foundation unrendered_list example_event =
     Inr (unrendered_list, example_event)"
  by (simp add: onRequestSelected_def getIndexOfTarget_def indexOf_def items_def
      unrendered_list_def example_list_def example_event_def example_dom_def plain_node_def
      list_item_node_def)

subsection \<open>The observers\<close>

lemma observers_settings:
  "mdcFoundation s = Some f \<Longrightarrow>
     map_option fnd_useActivatedClass (mdcFoundation (set_activatable s v)) = Some v \<and>
     map_option fnd_isSingleSelectionList (mdcFoundation (set_selectable s v)) = Some (\<not> v) \<and>
     map_option fnd_wrapFocus (mdcFoundation (set_wrapFocus s v)) = Some (\<not> v)"
  by (simp add: set_activatable_def activatable_observer_def setUseActivatedClass_def
      set_selectable_def selectable_observer_def setSingleSelection_def
      set_wrapFocus_def wrapFocus_observer_def setWrapFocus_def received_def)

text \<open>
  Claim C4 at a concrete input.  The list has a foundation; setting \<^verbatim>\<open>wrapFocus\<close> to
  true leaves the property true and the foundation's wrap-focus setting false, its last
  call being \<^verbatim>\<open>setWrapFocus(false)\<close>.  Setting \<^verbatim>\<open>activatable\<close> to true does make
  the foundation use the activated class.
\<close>

theorem set_wrapFocus_negated:
  "wrapFocus (set_wrapFocus example_list True) = True \<and>
   map_option fnd_wrapFocus (mdcFoundation (set_wrapFocus example_list True)) = Some False \<and>
   map_option fnd_calls (mdcFoundation (set_wrapFocus example_list True)) =
     Some [SetWrapFocus False] \<and>
   map_option fnd_useActivatedClass (mdcFoundation (set_activatable example_list True)) =
     Some True"
  by (simp add: set_wrapFocus_def wrapFocus_observer_def setWrapFocus_def
      set_activatable_def activatable_observer_def setUseActivatedClass_def received_def
      example_list_def example_foundation_def)

subsection \<open>Adapter callbacks on absent items and a missing root\<close>

lemma absent_item_guarded:
  "at_index (items s) index = None \<Longrightarrow>
     getAttributeForElementIndex s index attr = Some [] \<and>
     setAttributeForElementIndex s index attr val = s \<and>
     addClassForElementIndex s index className = s \<and>
     focusItemAtIndex s index = s \<and>
     hasCheckboxAtIndex s index = False \<and>
     hasRadioAtIndex s index = False \<and>
     setCheckedCheckboxOrRadioAtIndex s index isChecked = s \<and>
     listItemAtIndexHasClass s index className = False"
  by (simp add: getAttributeForElementIndex_def setAttributeForElementIndex_def
      addClassForElementIndex_def focusItemAtIndex_def hasCheckboxAtIndex_def
      hasRadioAtIndex_def setCheckedCheckboxOrRadioAtIndex_def listItemAtIndexHasClass_def
      split: option.splits)

lemma absent_item_faults:
  "at_index (items s) index = None \<Longrightarrow>
     isCheckboxCheckedAtIndex s index = Inl TypeError \<and>
     removeClassForElementIndex s index className = Inl TypeError"
  by (simp add: isCheckboxCheckedAtIndex_def removeClassForElementIndex_def)

lemma present_item_checked:
  "at_index (items s) index = Some element \<Longrightarrow>
     isCheckboxCheckedAtIndex s index =
       Inr (hasAttribute (dom s) element ''mwc-check-list-item'' \<and> selected (dom s element))"
  by (simp add: isCheckboxCheckedAtIndex_def)

text \<open>
  Claim C2 at a concrete input.  The list holds three items, so there is none at index
  3: there \<^verbatim>\<open>isCheckboxCheckedAtIndex\<close> and \<^verbatim>\<open>removeClassForElementIndex\<close> throw a
  \<^verbatim>\<open>TypeError\<close>, while a guarded sibling such as \<^verbatim>\<open>hasCheckboxAtIndex\<close> returns
  false.
\<close>

theorem absent_item_type_error:
  "at_index (items example_list) 3 = None \<and>
   isCheckboxCheckedAtIndex example_list 3 = Inl TypeError \<and>
   removeClassForElementIndex example_list 3 ''mdc-list-item--selected'' = Inl TypeError \<and>
   hasCheckboxAtIndex example_list 3 = False"
  by (simp add: isCheckboxCheckedAtIndex_def removeClassForElementIndex_def
      hasCheckboxAtIndex_def at_index_def items_def example_list_def)

lemma missing_root_defaults:
  "mdcRoot s = None \<Longrightarrow>
     getFocusedElementIndex s = -1 \<and>
     getAttributeForElementIndex s index attr = Some [] \<and>
     getListItemCount s = 0 \<and>
     setAttributeForElementIndex s index attr val = s \<and>
     addClassForElementIndex s index className = s"
  by (simp add: getFocusedElementIndex_def getAttributeForElementIndex_def getListItemCount_def
      setAttributeForElementIndex_def addClassForElementIndex_def)

lemma missing_foundation_index: "mdcFoundation s = None \<Longrightarrow> get_index s = Num (-1)"
  by (simp add: get_index_def)

lemma missing_root_isRootFocused: "mdcRoot s = None \<Longrightarrow> isRootFocused s = Inl TypeError"
  by (simp add: isRootFocused_def)

text \<open>
  Claim C3 at a concrete input.  Before the component has rendered there is no root:
  \<^verbatim>\<open>getFocusedElementIndex\<close>, \<^verbatim>\<open>getAttributeForElementIndex\<close> and
  \<^verbatim>\<open>getListItemCount\<close> return \<open>-1\<close>, the empty string and \<open>0\<close>, the getter
  \<^verbatim>\<open>index\<close> returns \<open>-1\<close>, and \<^verbatim>\<open>isRootFocused\<close> throws a \<^verbatim>\<open>TypeError\<close>.
\<close>

theorem missing_root_type_error:
  "mdcRoot unrendered_list = None \<and>
   getFocusedElementIndex unrendered_list = -1 \<and>
   getAttributeForElementIndex unrendered_list 0 ''role'' = Some [] \<and>
   getListItemCount unrendered_list = 0 \<and>
   get_index unrendered_list = Num (-1) \<and>
   isRootFocused unrendered_list = Inl TypeError"
  by (simp add: getFocusedElementIndex_def getAttributeForElementIndex_def getListItemCount_def
      get_index_def isRootFocused_def unrendered_list_def example_list_def)

subsection \<open>updateItems\<close>

lemma foldl_append_concat: "foldl (\<lambda>acc ys. acc @ ys) acc xss = acc @ concat xss"
  by (induction xss arbitrary: acc) simp_all

lemma filter_upt_Suc:
  "filter P [0..<Suc n] = (if P 0 then [0] else []) @ map Suc (filter (\<lambda>i. P (Suc i)) [0..<n])"
proof -
  have "[0..<Suc n] = 0 # map Suc [0..<n]"
    by (simp add: upt_conv_Cons map_Suc_upt del: upt_Suc)
  then show ?thesis
    by (simp add: filter_map comp_def del: upt_Suc)
qed

lemma updateItems_forEach_result:
  "updateItems_forEach roles xs k (d, acc) =
     ((\<lambda>n. if n \<in> set xs
           then (d n)\<lparr>attributes :=
                  (attributes (d n))(''role'' := (if truthy roles then roles else None))\<rparr>
           else d n),
      acc @ map (\<lambda>i. k + int i) (filter (\<lambda>i. selected (d (xs ! i))) [0..<length xs]))"
proof (induction xs arbitrary: k d acc)
  case Nil
  then show ?case by simp
next
  case (Cons x xs)
  define v where "v = (if truthy roles then roles else None)"
  define d1 where "d1 = d(x := (d x)\<lparr>attributes := (attributes (d x))(''role'' := v)\<rparr>)"
  have step: "(case roles of
                 Some r \<Rightarrow> (if truthy roles then setAttribute d x ''role'' r
                            else removeAttribute d x ''role'')
               | None \<Rightarrow> removeAttribute d x ''role'') = d1"
    by (simp add: d1_def v_def setAttribute_def removeAttribute_def truthy_def
        split: option.splits)
  have sel: "\<And>n. selected (d1 n) = selected (d n)"
    by (simp add: d1_def)
  have store: "(\<lambda>n. if n \<in> set xs
           then (d1 n)\<lparr>attributes := (attributes (d1 n))(''role'' := v)\<rparr> else d1 n) =
        (\<lambda>n. if n \<in> set (x # xs)
           then (d n)\<lparr>attributes := (attributes (d n))(''role'' := v)\<rparr> else d n)"
    by (rule ext) (simp add: d1_def)
  have idx: "map (\<lambda>i. k + int i) (filter (\<lambda>i. selected (d ((x # xs) ! i))) [0..<length (x # xs)]) =
        (if selected (d x) then [k] else []) @
        map (\<lambda>i. k + 1 + int i) (filter (\<lambda>i. selected (d (xs ! i))) [0..<length xs])"
    by (simp add: filter_upt_Suc comp_def add.assoc del: upt_Suc)
  have "updateItems_forEach roles (x # xs) k (d, acc) =
        updateItems_forEach roles xs (k + 1) (d1, if selected (d x) then acc @ [k] else acc)"
    by (simp add: step Let_def sel)
  also have "\<dots> =
        ((\<lambda>n. if n \<in> set xs
           then (d1 n)\<lparr>attributes := (attributes (d1 n))(''role'' := v)\<rparr> else d1 n),
         (if selected (d x) then acc @ [k] else acc) @
         map (\<lambda>i. k + 1 + int i) (filter (\<lambda>i. selected (d1 (xs ! i))) [0..<length xs]))"
    unfolding v_def by (rule Cons.IH)
  also have "\<dots> =
        ((\<lambda>n. if n \<in> set (x # xs)
           then (d n)\<lparr>attributes := (attributes (d n))(''role'' := v)\<rparr> else d n),
         acc @ map (\<lambda>i. k + int i)
                 (filter (\<lambda>i. selected (d ((x # xs) ! i))) [0..<length (x # xs)]))"
    unfolding store idx sel by simp
  finally show ?case unfolding v_def .
qed

text \<open>
  Claim C7.  \<^verbatim>\<open>updateItems\<close> rebuilds \<open>items\<close> from the slotted elements (an element
  that carries \<^verbatim>\<open>mwc-list-item\<close>, or else its descendants that do), and gives every
  item the role of \<^verbatim>\<open>itemRoles\<close>.  With \<open>selectedIndicies\<close> the positions of the items
  whose \<^verbatim>\<open>selected\<close> property is true: when there is none, \<^verbatim>\<open>select\<close> is not called,
  and the foundation and the dispatched events are as before; when there is exactly
  one, \<^verbatim>\<open>select\<close> is called with that index; otherwise it is called with the array of
  all of them.
\<close>

theorem updateItems_synchronises:
  "let listItems = concat (map (listItemResult (dom s)) (assignedElements s));
       selectedIndicies =
         map int (filter (\<lambda>i. selected (dom s (listItems ! i))) [0..<length listItems]);
       s1 = s\<lparr>items_field := listItems,
              dom := (\<lambda>n. if n \<in> set listItems
                          then (dom s n)\<lparr>attributes :=
                                 (attributes (dom s n))
                                   (''role'' := (if truthy (itemRoles s) then itemRoles s
                                                 else None))\<rparr>
                          else dom s n)\<rparr>
   in updateItems B s =
        (if selectedIndicies = [] then Inr s1
         else if length selectedIndicies = 1 then select B s1 (Num (hd selectedIndicies))
         else select B s1 (Arr selectedIndicies)) \<and>
      (selectedIndicies = [] \<longrightarrow>
         (\<exists>s'. updateItems B s = Inr s' \<and>
            mdcFoundation s' = mdcFoundation s \<and>
            dispatched s' = dispatched s))"
proof -
  have hd0: "\<And>xs :: int list. xs \<noteq> [] \<Longrightarrow> xs ! 0 = hd xs"
    by (simp add: hd_conv_nth)
  show ?thesis
    by (simp add: updateItems_def Let_def foldl_append_concat updateItems_forEach_result
        hd0 del: upt_Suc)
qed

theorem updateItems_synchronises_witness:
  "(\<exists>s'. updateItems quiet_foundation example_list = Inr s' \<and>
      items s' = [2, 3, 4] \<and>
      map_option fnd_calls (mdcFoundation s') = Some [SetSelectedIndex (Num 1)] \<and>
      dispatched s' =
        [\<lparr>evType = ''selected'', bubbles = True, composed = True, detail = Num 1\<rparr>]) \<and>
   (\<exists>s'. updateItems quiet_foundation (example_list\<lparr>slotElement := Some [2, 6]\<rparr>) = Inr s' \<and>
      items s' = [2, 4] \<and>
      mdcFoundation s' = Some example_foundation)"
proof -
  have l1: "concat (map (listItemResult (dom example_list)) (assignedElements example_list)) =
      [2, 3, 4]"
    by (simp add: listItemResult_def assignedElements_def querySelectorAll_def hasAttribute_def
        example_list_def example_dom_def plain_node_def list_item_node_def)
  have l2: "concat (map (listItemResult (dom (example_list\<lparr>slotElement := Some [2, 6]\<rparr>)))
        (assignedElements (example_list\<lparr>slotElement := Some [2, 6]\<rparr>))) = [2, 4]"
    by (simp add: listItemResult_def assignedElements_def querySelectorAll_def hasAttribute_def
        example_list_def example_dom_def plain_node_def list_item_node_def)
  have s1: "map int (filter (\<lambda>i. selected (dom example_list ([2, 3, 4] ! i)))
        [0..<length [2, 3, 4 :: nat]]) = [1]"
    by (simp add: example_list_def example_dom_def plain_node_def list_item_node_def)
  have s2: "map int (filter
        (\<lambda>i. selected (dom (example_list\<lparr>slotElement := Some [2, 6]\<rparr>) ([2, 4] ! i)))
        [0..<length [2, 4 :: nat]]) = []"
    by (simp add: example_list_def example_dom_def plain_node_def list_item_node_def)
  have fnd: "mdcFoundation example_list = Some example_foundation"
    and ev: "dispatched example_list = []"
    by (simp_all add: example_list_def)
  have tr: "truthy (itemRoles example_list) = False"
    "truthy (itemRoles (example_list\<lparr>slotElement := Some [2, 6]\<rparr>)) = False"
    by (simp_all add: truthy_def example_list_def)
  have its: "\<And>t xs D. items (t\<lparr>items_field := xs, dom := D\<rparr>) = xs"
    by (simp add: items_def)
  have log: "fnd_calls (received (SetSelectedIndex (Num 1)) example_foundation) =
      [SetSelectedIndex (Num 1)]"
    by (simp add: received_def example_foundation_def)
  define t where
    "t = example_list\<lparr>items_field := [2, 3, 4],
           dom := (\<lambda>n. if n \<in> set [2, 3, 4]
                       then (dom example_list n)\<lparr>attributes :=
                              (attributes (dom example_list n))(''role'' := None)\<rparr>
                       else dom example_list n)\<rparr>"
  have t: "mdcFoundation t = Some example_foundation" "items t = [2, 3, 4]" "dispatched t = []"
    by (simp_all add: t_def fnd ev its)
  have q: "quiet_foundation (SetSelectedIndex (Num 1)) t = Inr (unchanged t)"
    by (simp add: quiet_foundation_def)
  have u: "updateItems quiet_foundation example_list = select quiet_foundation t (Num 1)"
    using updateItems_synchronises [of example_list quiet_foundation]
    unfolding Let_def l1 s1 by (simp add: tr t_def)
  from select_returns [where B = quiet_foundation, OF t(1) q]
  have a: "\<exists>s'. updateItems quiet_foundation example_list = Inr s' \<and>
      items s' = [2, 3, 4] \<and>
      map_option fnd_calls (mdcFoundation s') = Some [SetSelectedIndex (Num 1)] \<and>
      dispatched s' =
        [\<lparr>evType = ''selected'', bubbles = True, composed = True, detail = Num 1\<rparr>]"
    by (auto simp: u t log unchanged_def)
  have b: "\<exists>s'. updateItems quiet_foundation (example_list\<lparr>slotElement := Some [2, 6]\<rparr>) = Inr s' \<and>
      items s' = [2, 4] \<and>
      mdcFoundation s' = Some example_foundation"
    using updateItems_synchronises [of "example_list\<lparr>slotElement := Some [2, 6]\<rparr>" quiet_foundation]
    unfolding Let_def l2 s2
    by (simp add: fnd its tr)
  from a b show ?thesis by simp
qed

end
